theory Spec2Isabelle
  imports Complex_Main "HOL-Library.Monad_Syntax"
begin

section \<open>The credit simulator's scoring formula\<close>

text \<open>
  The three functions of the scoring heuristic in \<^verbatim>\<open>src/next.config.ts\<close>,
  \<^verbatim>\<open>calculateWeights\<close> (lines 407-458), \<^verbatim>\<open>calculateWorstCaseImpact\<close>
  (lines 460-472) and \<^verbatim>\<open>runSimulation\<close> (lines 474-553), as HOL functions.

  Numbers. A JavaScript number is an IEEE double; the model computes with the real
  numbers instead, reading each decimal literal of the source as the fraction it
  writes (\<open>0.35\<close> is \<open>35/100\<close>), so every operation is exact. \<open>NaN\<close> and the
  infinities are not values of the model. A division whose denominator is computed
  goes through \<open>jsdiv\<close>, which has no result for a zero denominator (where
  JavaScript gives \<open>Infinity\<close> or \<open>NaN\<close>); a division by a non-zero literal is
  written with \<open>/\<close>. A function of the model therefore returns \<open>None\<close> exactly when
  the source would have divided by zero.
\<close>

subsection \<open>JavaScript primitives\<close>

text \<open>A form field of type \<^verbatim>\<open>number | ''\<close>: \<open>None\<close> is the empty string.\<close>

type_synonym field = "real option"

text \<open>\<^verbatim>\<open>Number(v)\<close> on such a field: the empty string converts to 0.\<close>

definition Number :: "field \<Rightarrow> real" where
  "Number v = (case v of None \<Rightarrow> 0 | Some x \<Rightarrow> x)"

text \<open>\<^verbatim>\<open>a || b\<close> on numbers: 0 is the only falsy value of the model.\<close>

definition orElse :: "real \<Rightarrow> real \<Rightarrow> real" where
  "orElse a b = (if a = 0 then b else a)"

text \<open>\<^verbatim>\<open>Math.round\<close>: the nearest integer, a tie going up.\<close>

definition Math_round :: "real \<Rightarrow> real" where
  "Math_round x = of_int \<lfloor>x + 1 / 2\<rfloor>"

definition jsdiv :: "real \<Rightarrow> real \<Rightarrow> real option" where
  "jsdiv a b = (if b = 0 then None else Some (a / b))"

text \<open>
  \<^verbatim>\<open>Number.prototype.toFixed(f)\<close>, after the ECMAScript algorithm: the sign is split
  off, \<open>n\<close> is the integer nearest to \<open>x * 10^f\<close> (the larger one on a tie), its
  decimal digits are padded with zeros to \<open>f + 1\<close> places and the point is put before
  the last \<open>f\<close>. From \<open>10^21\<close> on the algorithm hands over to \<^verbatim>\<open>ToString\<close>, whose
  digits depend on the double; the model keeps the number there.
\<close>

definition digitChar :: "nat \<Rightarrow> char" where
  "digitChar d =
     (if d = 0 then CHR ''0'' else if d = 1 then CHR ''1'' else if d = 2 then CHR ''2''
      else if d = 3 then CHR ''3'' else if d = 4 then CHR ''4'' else if d = 5 then CHR ''5''
      else if d = 6 then CHR ''6'' else if d = 7 then CHR ''7'' else if d = 8 then CHR ''8''
      else CHR ''9'')"

fun digits :: "nat \<Rightarrow> string" where
  "digits n = (if n < 10 then [digitChar n] else digits (n div 10) @ [digitChar (n mod 10)])"

declare digits.simps [simp del]

datatype number_text = Fixed string | ToString real

definition toFixedN :: "nat \<Rightarrow> real \<Rightarrow> nat" where
  "toFixedN f x = nat \<lfloor>\<bar>x\<bar> * 10 ^ f + 1 / 2\<rfloor>"

definition toFixed :: "nat \<Rightarrow> real \<Rightarrow> number_text" where
  "toFixed f x =
     (if \<bar>x\<bar> \<ge> 10 ^ 21 then ToString x
      else
        let s = (if x < 0 then ''-'' else '''');
            m = digits (toFixedN f x);
            m = (if f \<noteq> 0
                 then let m = (if length m \<le> f then replicate (f + 1 - length m) CHR ''0'' @ m else m);
                          k = length m
                      in take (k - f) m @ ''.'' @ drop (k - f) m
                 else m)
        in Fixed (s @ m))"

text \<open>
  \<^verbatim>\<open>parseFloat(x.toFixed(f))\<close>: the number that the text printed by \<open>toFixed\<close>
  denotes, \<open>n / 10^f\<close> with the sign of \<open>x\<close>.
\<close>

definition parseFloat_toFixed :: "nat \<Rightarrow> real \<Rightarrow> real" where
  "parseFloat_toFixed f x =
     (if \<bar>x\<bar> \<ge> 10 ^ 21 then x
      else (if x < 0 then - 1 else 1) * (of_nat (toFixedN f x) / 10 ^ f))"

subsection \<open>calculateWeights\<close>

text \<open>
  The weight object of \<^verbatim>\<open>calculateWeights\<close>; the fields are in the order of the
  object literal, which is the order \<^verbatim>\<open>Object.values\<close> and \<^verbatim>\<open>for ... in\<close> follow.
\<close>

record weights =
  paymentHistory :: real
  utilization :: real
  accountAge :: real
  creditMix :: real
  newCredit :: real

definition baseWeights :: weights where
  "baseWeights =
     \<lparr>paymentHistory = 0.35, utilization = 0.30, accountAge = 0.15, creditMix = 0.10,
      newCredit = 0.10\<rparr>"

text \<open>Lines 423-431: the override by score band.\<close>

definition ficoStep :: "real \<Rightarrow> weights \<Rightarrow> weights" where
  "ficoStep ficoScore w =
     (if ficoScore \<ge> 740
      then w\<lparr>paymentHistory := 0.25, weights.utilization := 0.40, accountAge := 0.20\<rparr>
      else if ficoScore \<le> 580
      then w\<lparr>paymentHistory := 0.45, weights.utilization := 0.25, newCredit := 0.15\<rparr>
      else w)"

text \<open>Line 432: the debt-to-income ratio.\<close>

definition debtToIncome :: "real \<Rightarrow> real \<Rightarrow> real option" where
  "debtToIncome totalDebt monthlyIncome =
     (if monthlyIncome > 0 then jsdiv totalDebt (monthlyIncome * 12) else Some 1)"

text \<open>Lines 433-436.\<close>

definition dtiStep :: "real \<Rightarrow> weights \<Rightarrow> weights" where
  "dtiStep dti w =
     (if dti > 0.45
      then (let w = w\<lparr>weights.utilization := min 0.45 (weights.utilization w + 0.05)\<rparr>
            in w\<lparr>paymentHistory := max 0.25 (paymentHistory w - 0.05)\<rparr>)
      else w)"

text \<open>Lines 437-442: the overall utilization.\<close>

definition overallUtilizationStep :: "real \<Rightarrow> real \<Rightarrow> weights \<Rightarrow> weights option" where
  "overallUtilizationStep totalDebt totalCreditLimit w =
     (if totalCreditLimit > 0
      then do {
        q \<leftarrow> jsdiv totalDebt totalCreditLimit;
        let trueOverallUtilization = q * 100;
        Some (if trueOverallUtilization < 30
              then w\<lparr>weights.utilization := max 0.20 (weights.utilization w - 0.05)\<rparr>
              else w)
      }
      else Some w)"

text \<open>Lines 443-446.\<close>

definition positiveAccountsStep :: "real \<Rightarrow> weights \<Rightarrow> weights" where
  "positiveAccountsStep positiveAccounts w =
     (if positiveAccounts > 0
      then (let w = w\<lparr>paymentHistory := max 0.30 (paymentHistory w - 0.05)\<rparr>
            in w\<lparr>creditMix := min 0.20 (creditMix w + 0.05)\<rparr>)
      else w)"

text \<open>Lines 447-452.\<close>

definition accountAgeStep :: "real \<Rightarrow> weights \<Rightarrow> weights" where
  "accountAgeStep oldestAccountAge w =
     (if oldestAccountAge < 4
      then (let w = w\<lparr>accountAge := max 0.05 (accountAge w - 0.05)\<rparr>
            in w\<lparr>newCredit := min 0.20 (newCredit w + 0.05)\<rparr>)
      else if oldestAccountAge > 10
      then w\<lparr>accountAge := min 0.25 (accountAge w + 0.05)\<rparr>
      else w)"

text \<open>The weights as they stand after line 452, before the normalization.\<close>

definition adjustedWeights ::
    "real \<Rightarrow> real \<Rightarrow> real \<Rightarrow> real \<Rightarrow> real \<Rightarrow> real \<Rightarrow> weights option" where
  "adjustedWeights ficoScore totalDebt monthlyIncome positiveAccounts oldestAccountAge
       totalCreditLimit =
     do {
       let w = ficoStep ficoScore baseWeights;
       dti \<leftarrow> debtToIncome totalDebt monthlyIncome;
       let w = dtiStep dti w;
       w \<leftarrow> overallUtilizationStep totalDebt totalCreditLimit w;
       let w = positiveAccountsStep positiveAccounts w;
       Some (accountAgeStep oldestAccountAge w)
     }"

text \<open>Line 453: \<^verbatim>\<open>Object.values(baseWeights).reduce((a, b) => a + b, 0)\<close>.\<close>

definition weightSum :: "weights \<Rightarrow> real" where
  "weightSum w =
     ((((0 + paymentHistory w) + weights.utilization w) + accountAge w) + creditMix w)
       + newCredit w"

text \<open>Lines 453-456: every weight is divided by the sum taken before the loop.\<close>

definition normalizeWeights :: "weights \<Rightarrow> weights option" where
  "normalizeWeights w =
     (let sum = weightSum w in
      do {
        ph \<leftarrow> jsdiv (paymentHistory w) sum;
        ut \<leftarrow> jsdiv (weights.utilization w) sum;
        aa \<leftarrow> jsdiv (accountAge w) sum;
        cm \<leftarrow> jsdiv (creditMix w) sum;
        nc \<leftarrow> jsdiv (newCredit w) sum;
        Some \<lparr>paymentHistory = parseFloat_toFixed 4 ph,
              utilization = parseFloat_toFixed 4 ut,
              accountAge = parseFloat_toFixed 4 aa,
              creditMix = parseFloat_toFixed 4 cm,
              newCredit = parseFloat_toFixed 4 nc\<rparr>
      })"

definition calculateWeights ::
    "real \<Rightarrow> real \<Rightarrow> real \<Rightarrow> real \<Rightarrow> real \<Rightarrow> real \<Rightarrow> weights option" where
  "calculateWeights ficoScore totalDebt monthlyIncome positiveAccounts oldestAccountAge
       totalCreditLimit =
     do {
       w \<leftarrow> adjustedWeights ficoScore totalDebt monthlyIncome positiveAccounts
              oldestAccountAge totalCreditLimit;
       normalizeWeights w
     }"

subsection \<open>The form data\<close>

datatype scenario = PreEnrollment | ProgressTracker

datatype phase = Negotiation | Settlement | Graduation

text \<open>The interface \<^verbatim>\<open>UserData\<close> (lines 275-295).\<close>

record UserData =
  ficoScore :: field
  totalDebt :: field
  monthlyIncome :: field
  utilization :: field
  accountsEnrolling :: field
  positiveAccounts :: field
  oldestAccountAge :: field
  programTimeline :: real
  totalCreditLimit :: field
  scenarioType :: scenario
  monthsInProgram :: field
  settledAccounts :: field
  programPhase :: phase
  securedCard :: bool
  creditBuilder :: bool
  authorizedUser :: bool
  email :: string
  firstName :: string
  phone :: string

text \<open>\<^verbatim>\<open>defaultUserData\<close> (lines 319-339), the form before anything is entered.\<close>

definition defaultUserData :: UserData where
  "defaultUserData =
     \<lparr>ficoScore = None, totalDebt = None, monthlyIncome = None, utilization = None,
      accountsEnrolling = None, positiveAccounts = None, oldestAccountAge = None,
      programTimeline = 36, totalCreditLimit = None, scenarioType = PreEnrollment,
      monthsInProgram = None, settledAccounts = None, programPhase = Negotiation,
      securedCard = True, creditBuilder = False, authorizedUser = False,
      email = [], firstName = [], phone = []\<rparr>"

subsection \<open>calculateWorstCaseImpact\<close>

text \<open>Lines 462-463.\<close>

definition utilizationFactor :: "UserData \<Rightarrow> real" where
  "utilizationFactor data =
     (let utilization = orElse (Number (UserData.utilization data)) 100
      in max 0 ((100 - utilization) / 10))"

text \<open>Lines 461-470: the drop before it is rounded and clamped.\<close>

definition worstCaseDrop :: "UserData \<Rightarrow> weights \<Rightarrow> real" where
  "worstCaseDrop data w =
     (let drop = 0;
          drop = drop + utilizationFactor data * 5 * (weights.utilization w * 2);
          severityFactor = max 0 ((Number (ficoScore data) - 500) / 20);
          drop = drop + severityFactor * 5;
          drop = drop - orElse (Number (positiveAccounts data)) 0 * 10;
          drop = (if Number (oldestAccountAge data) > 10 then drop - 15 else drop)
      in drop)"

definition calculateWorstCaseImpact :: "UserData \<Rightarrow> weights \<Rightarrow> real" where
  "calculateWorstCaseImpact data w = min 150 (max 20 (Math_round (worstCaseDrop data w)))"

subsection \<open>runSimulation\<close>

text \<open>Lines 476-494: the object \<^verbatim>\<open>numericData\<close>, as far as the function reads it.\<close>

record NumericData =
  n_ficoScore :: real
  n_totalDebt :: real
  n_monthlyIncome :: real
  n_utilization :: real
  n_accountsEnrolling :: real
  n_positiveAccounts :: real
  n_oldestAccountAge :: real
  n_programTimeline :: real
  n_totalCreditLimit :: real
  n_monthsInProgram :: real
  n_securedCard :: bool
  n_creditBuilder :: bool
  n_authorizedUser :: bool
  n_scenarioType :: scenario
  n_programPhase :: phase

definition numericData :: "UserData \<Rightarrow> NumericData" where
  "numericData data =
     \<lparr>n_ficoScore = orElse (Number (ficoScore data)) 0,
      n_totalDebt = orElse (Number (totalDebt data)) 0,
      n_monthlyIncome = orElse (Number (monthlyIncome data)) 0,
      n_utilization = orElse (Number (UserData.utilization data)) 0,
      n_accountsEnrolling = orElse (Number (accountsEnrolling data)) 0,
      n_positiveAccounts = orElse (Number (positiveAccounts data)) 0,
      n_oldestAccountAge = orElse (Number (oldestAccountAge data)) 0,
      n_programTimeline = orElse (programTimeline data) 36,
      n_totalCreditLimit = orElse (Number (totalCreditLimit data)) 0,
      n_monthsInProgram = orElse (Number (monthsInProgram data)) 0,
      n_securedCard = securedCard data,
      n_creditBuilder = creditBuilder data,
      n_authorizedUser = authorizedUser data,
      n_scenarioType = scenarioType data,
      n_programPhase = programPhase data\<rparr>"

text \<open>Line 496.\<close>

definition initialScoreOf :: "NumericData \<Rightarrow> real" where
  "initialScoreOf nd = (if n_ficoScore nd > 300 then n_ficoScore nd else 500)"

text \<open>
  Lines 505-515: the scenario branch, giving \<open>(impactPenalty, lowPointScore, recoveryMonths)\<close>.
  \<^verbatim>\<open>calculateWorstCaseImpact\<close> receives the form data, not \<open>numericData\<close>.
\<close>

definition scenarioBranch ::
    "UserData \<Rightarrow> NumericData \<Rightarrow> real \<Rightarrow> weights \<Rightarrow> real \<times> real \<times> real" where
  "scenarioBranch data nd initialScore w =
     (if n_scenarioType nd = PreEnrollment
      then (let impactPenalty = calculateWorstCaseImpact data w
            in (impactPenalty, max 300 (initialScore - impactPenalty), n_programTimeline nd))
      else (0, initialScore, max 12 (n_programTimeline nd - n_monthsInProgram nd)))"

text \<open>Lines 521-524.\<close>

definition toolGainOf :: "NumericData \<Rightarrow> real" where
  "toolGainOf nd =
     (let toolGain = 0;
          toolGain = (if n_securedCard nd then toolGain + 30 else toolGain);
          toolGain = (if n_creditBuilder nd then toolGain + 25 else toolGain);
          toolGain = (if n_authorizedUser nd then toolGain + 10 else toolGain)
      in toolGain)"

text \<open>Lines 516-525.\<close>

definition totalPotentialGainOf :: "NumericData \<Rightarrow> weights \<Rightarrow> real \<Rightarrow> real" where
  "totalPotentialGainOf nd w recoveryMonths =
     (let totalPotentialGain = 0;
          totalPotentialGain = totalPotentialGain + weights.utilization w * 250;
          historyGain = (paymentHistory w * 150) * (recoveryMonths / 36);
          totalPotentialGain = totalPotentialGain + historyGain;
          totalPotentialGain = totalPotentialGain + (accountAge w * 50) * (recoveryMonths / 36);
          totalPotentialGain = totalPotentialGain + toolGainOf nd
      in totalPotentialGain)"

text \<open>Lines 527-531: the debt after the program, as a share of the monthly income.\<close>

definition postDTIOf :: "NumericData \<Rightarrow> real option" where
  "postDTIOf nd =
     (let debtSavings = n_totalDebt nd * 0.55;
          postProgramDebt = n_totalDebt nd - debtSavings;
          annualPostDebtPayment = postProgramDebt * 0.05;
          monthlyPostDebtPayment = annualPostDebtPayment / 12
      in if n_monthlyIncome nd > 0
         then do { q \<leftarrow> jsdiv monthlyPostDebtPayment (n_monthlyIncome nd); Some (q * 100) }
         else Some 0)"

text \<open>
  The interface \<^verbatim>\<open>SimulationResults\<close> (lines 298-313). The field
  \<^verbatim>\<open>recoveryTime\<close>, the text \<^verbatim>\<open>`${recoveryMonths} months`\<close>, repeats
  \<open>recoveryMonths\<close> and is left out.
\<close>

record SimulationResults =
  initialScore :: real
  lowPointScore :: real
  projectedScore :: real
  scoreGain :: real
  postDTI :: number_text
  savings :: real
  impactPenalty :: real
  recoveryMonths :: real
  weights :: weights
  milestoneDipScore :: real
  milestoneStabilizationScore :: real
  milestoneRecoveryScore :: real
  utilization :: field

definition runSimulation :: "UserData \<Rightarrow> SimulationResults option" where
  "runSimulation data =
     (let nd = numericData data;
          initialScore = initialScoreOf nd
      in do {
        w \<leftarrow> calculateWeights initialScore (n_totalDebt nd) (n_monthlyIncome nd)
               (n_positiveAccounts nd) (n_oldestAccountAge nd) (n_totalCreditLimit nd);
        let (impactPenalty, lowPointScore, recoveryMonths) =
              scenarioBranch data nd initialScore w;
        let totalPotentialGain = totalPotentialGainOf nd w recoveryMonths;
        let projectedScore = min 850 (Math_round (lowPointScore + totalPotentialGain));
        let debtSavings = n_totalDebt nd * 0.55;
        postDTI \<leftarrow> postDTIOf nd;
        let totalGain = projectedScore - lowPointScore;
        let stabilizationScore =
              min initialScore (lowPointScore + Math_round (totalGain * 0.15));
        let recoveryScore = lowPointScore + Math_round (totalGain * 0.65);
        Some \<lparr>initialScore = initialScore,
              lowPointScore = lowPointScore,
              projectedScore = projectedScore,
              scoreGain = projectedScore - initialScore,
              postDTI = toFixed 1 (min 50 postDTI),
              savings = debtSavings,
              impactPenalty = impactPenalty,
              recoveryMonths = recoveryMonths,
              weights = w,
              milestoneDipScore = lowPointScore,
              milestoneStabilizationScore = stabilizationScore,
              milestoneRecoveryScore = recoveryScore,
              utilization = UserData.utilization data\<rparr>
      })"

section \<open>The same formula in double precision\<close>

text \<open>
  The definitions above compute with exact real numbers. That is enough for what does
  not depend on the last bit of a result (ranges, the branch structure, the guards
  against a zero denominator), and it is not what the program prints: a JavaScript
  number is an IEEE 754 binary64 value, and every arithmetic operation rounds its exact
  result to the nearest such value. The definitions of this section are the same three
  functions with that rounding written out. They take the rounding as a parameter
  \<open>rnd\<close>: every \<open>+\<close>, \<open>-\<close>, \<open>*\<close> and \<open>/\<close> of the source is followed by \<open>rnd\<close>, and
  every decimal literal that is not a whole number is \<open>rnd\<close> of the decimal it writes.
  With the identity for \<open>rnd\<close> they are the definitions above; with \<open>fl\<close> they are the
  program.
\<close>

subsection \<open>Rounding to the nearest double\<close>

text \<open>
  The binary exponent of a positive number: \<open>expoUp\<close> counts the halvings that bring a
  number of at least 1 below 2, \<open>expoDown\<close> the doublings that bring a number below 1 up
  to 1.
\<close>

function expoUp :: "real \<Rightarrow> int" where
  "expoUp x = (if 2 \<le> x then expoUp (x / 2) + 1 else 0)"
  by pat_completeness auto
termination
proof (relation "measure (\<lambda>x. nat \<lceil>x\<rceil>)")
  show "wf (measure (\<lambda>x::real. nat \<lceil>x\<rceil>))"
    by simp
next
  fix x :: real
  assume "2 \<le> x"
  then have "\<lceil>x / 2\<rceil> < \<lceil>x\<rceil>" "0 < \<lceil>x\<rceil>"
    by linarith+
  then show "(x / 2, x) \<in> measure (\<lambda>x. nat \<lceil>x\<rceil>)"
    by simp
qed

function expoDown :: "real \<Rightarrow> int" where
  "expoDown x = (if 0 < x \<and> x < 1 then expoDown (x * 2) - 1 else 0)"
  by pat_completeness auto
termination
proof (relation "measure (\<lambda>x. nat \<lceil>1 / x\<rceil>)")
  show "wf (measure (\<lambda>x::real. nat \<lceil>1 / x\<rceil>))"
    by simp
next
  fix x :: real
  assume a: "0 < x \<and> x < 1"
  have half: "nat \<lceil>y / 2\<rceil> < nat \<lceil>y\<rceil>" if "1 < y" for y :: real
  proof -
    have c: "2 \<le> \<lceil>y\<rceil>"
      using that by linarith
    then have "2 \<le> (of_int \<lceil>y\<rceil> :: real)"
      by linarith
    moreover have "y \<le> of_int \<lceil>y\<rceil>"
      by (rule le_of_int_ceiling)
    ultimately have "y / 2 \<le> of_int \<lceil>y\<rceil> - 1"
      by linarith
    then have "y / 2 \<le> of_int (\<lceil>y\<rceil> - 1)"
      by simp
    then have "\<lceil>y / 2\<rceil> \<le> \<lceil>y\<rceil> - 1"
      by (simp only: ceiling_le_iff)
    then show ?thesis
      using c by linarith
  qed
  have "1 < 1 / x"
    using a by simp
  then have "nat \<lceil>1 / x / 2\<rceil> < nat \<lceil>1 / x\<rceil>"
    by (rule half)
  moreover have "1 / (x * 2) = 1 / x / 2"
    by simp
  ultimately have "nat \<lceil>1 / (x * 2)\<rceil> < nat \<lceil>1 / x\<rceil>"
    by (simp only:)
  then show "(x * 2, x) \<in> measure (\<lambda>x. nat \<lceil>1 / x\<rceil>)"
    by (simp only: in_measure)
qed

declare expoUp.simps [simp del] expoDown.simps [simp del]

definition pow2 :: "int \<Rightarrow> real" where
  "pow2 k = (if 0 \<le> k then 2 ^ nat k else 1 / 2 ^ nat (- k))"

text \<open>The nearest integer, a tie going to the even one.\<close>

definition roundEven :: "real \<Rightarrow> int" where
  "roundEven m =
     (let f = \<lfloor>m\<rfloor>; d = m - of_int f
      in if d < 1 / 2 then f else if 1 / 2 < d then f + 1 else if even f then f else f + 1)"

text \<open>
  The nearest binary64 value: 53 significant bits, a tie going to the even significand,
  and no exponent below -1022, so that the numbers under \<open>2^-1022\<close> are spaced by
  \<open>2^-1074\<close>. The model has no largest double: where the program's result would be an
  infinity, beyond \<open>2^1024\<close>, \<open>fl\<close> still rounds to 53 bits.
\<close>

definition fl :: "real \<Rightarrow> real" where
  "fl x =
     (if x = 0 then 0
      else let e = max (if 1 \<le> \<bar>x\<bar> then expoUp \<bar>x\<bar> else expoDown \<bar>x\<bar>) (- 1022);
               u = pow2 (e - 52)
           in of_int (roundEven (x / u)) * u)"

subsection \<open>Primitives\<close>

text \<open>
  \<^verbatim>\<open>Number(v)\<close> on a form field. The form stores what \<^verbatim>\<open>Number\<close> made of the text typed
  (line 396), the double nearest to it; a field of the model holds the decimal typed.
\<close>

definition Number_fl :: "(real \<Rightarrow> real) \<Rightarrow> field \<Rightarrow> real" where
  "Number_fl rnd v = (case v of None \<Rightarrow> 0 | Some x \<Rightarrow> rnd x)"

definition jsdiv_fl :: "(real \<Rightarrow> real) \<Rightarrow> real \<Rightarrow> real \<Rightarrow> real option" where
  "jsdiv_fl rnd a b = (if b = 0 then None else Some (rnd (a / b)))"

text \<open>
  \<^verbatim>\<open>parseFloat(x.toFixed(f))\<close>: \<open>toFixed\<close> works on the exact value of the double \<open>x\<close>, and
  \<open>parseFloat\<close> reads the decimal printed as the double nearest to it.
\<close>

definition parseFloat_toFixed_fl :: "(real \<Rightarrow> real) \<Rightarrow> nat \<Rightarrow> real \<Rightarrow> real" where
  "parseFloat_toFixed_fl rnd f x =
     (if \<bar>x\<bar> \<ge> 10 ^ 21 then x
      else rnd ((if x < 0 then - 1 else 1) * (of_nat (toFixedN f x) / 10 ^ f)))"

subsection \<open>calculateWeights\<close>

definition baseWeights_fl :: "(real \<Rightarrow> real) \<Rightarrow> weights" where
  "baseWeights_fl rnd =
     \<lparr>paymentHistory = rnd 0.35, utilization = rnd 0.30, accountAge = rnd 0.15,
      creditMix = rnd 0.10, newCredit = rnd 0.10\<rparr>"

definition ficoStep_fl :: "(real \<Rightarrow> real) \<Rightarrow> real \<Rightarrow> weights \<Rightarrow> weights" where
  "ficoStep_fl rnd fico w =
     (if fico \<ge> 740
      then w\<lparr>paymentHistory := rnd 0.25, weights.utilization := rnd 0.40,
             accountAge := rnd 0.20\<rparr>
      else if fico \<le> 580
      then w\<lparr>paymentHistory := rnd 0.45, weights.utilization := rnd 0.25,
             newCredit := rnd 0.15\<rparr>
      else w)"

definition debtToIncome_fl :: "(real \<Rightarrow> real) \<Rightarrow> real \<Rightarrow> real \<Rightarrow> real option" where
  "debtToIncome_fl rnd debt income =
     (if income > 0 then jsdiv_fl rnd debt (rnd (income * 12)) else Some 1)"

definition dtiStep_fl :: "(real \<Rightarrow> real) \<Rightarrow> real \<Rightarrow> weights \<Rightarrow> weights" where
  "dtiStep_fl rnd dti w =
     (if dti > rnd 0.45
      then (let w = w\<lparr>weights.utilization :=
                        min (rnd 0.45) (rnd (weights.utilization w + rnd 0.05))\<rparr>
            in w\<lparr>paymentHistory := max (rnd 0.25) (rnd (paymentHistory w - rnd 0.05))\<rparr>)
      else w)"

definition overallUtilizationStep_fl ::
    "(real \<Rightarrow> real) \<Rightarrow> real \<Rightarrow> real \<Rightarrow> weights \<Rightarrow> weights option" where
  "overallUtilizationStep_fl rnd debt limit w =
     (if limit > 0
      then do {
        q \<leftarrow> jsdiv_fl rnd debt limit;
        let trueOverallUtilization = rnd (q * 100);
        Some (if trueOverallUtilization < 30
              then w\<lparr>weights.utilization :=
                       max (rnd 0.20) (rnd (weights.utilization w - rnd 0.05))\<rparr>
              else w)
      }
      else Some w)"

definition positiveAccountsStep_fl :: "(real \<Rightarrow> real) \<Rightarrow> real \<Rightarrow> weights \<Rightarrow> weights" where
  "positiveAccountsStep_fl rnd positive w =
     (if positive > 0
      then (let w = w\<lparr>paymentHistory := max (rnd 0.30) (rnd (paymentHistory w - rnd 0.05))\<rparr>
            in w\<lparr>creditMix := min (rnd 0.20) (rnd (creditMix w + rnd 0.05))\<rparr>)
      else w)"

definition accountAgeStep_fl :: "(real \<Rightarrow> real) \<Rightarrow> real \<Rightarrow> weights \<Rightarrow> weights" where
  "accountAgeStep_fl rnd age w =
     (if age < 4
      then (let w = w\<lparr>accountAge := max (rnd 0.05) (rnd (accountAge w - rnd 0.05))\<rparr>
            in w\<lparr>newCredit := min (rnd 0.20) (rnd (newCredit w + rnd 0.05))\<rparr>)
      else if age > 10
      then w\<lparr>accountAge := min (rnd 0.25) (rnd (accountAge w + rnd 0.05))\<rparr>
      else w)"

definition adjustedWeights_fl ::
    "(real \<Rightarrow> real) \<Rightarrow> real \<Rightarrow> real \<Rightarrow> real \<Rightarrow> real \<Rightarrow> real \<Rightarrow> real \<Rightarrow> weights option" where
  "adjustedWeights_fl rnd fico debt income positive age limit =
     do {
       let w = ficoStep_fl rnd fico (baseWeights_fl rnd);
       dti \<leftarrow> debtToIncome_fl rnd debt income;
       let w = dtiStep_fl rnd dti w;
       w \<leftarrow> overallUtilizationStep_fl rnd debt limit w;
       let w = positiveAccountsStep_fl rnd positive w;
       Some (accountAgeStep_fl rnd age w)
     }"

definition weightSum_fl :: "(real \<Rightarrow> real) \<Rightarrow> weights \<Rightarrow> real" where
  "weightSum_fl rnd w =
     rnd (rnd (rnd (rnd (rnd (0 + paymentHistory w) + weights.utilization w) + accountAge w)
                + creditMix w)
           + newCredit w)"

definition normalizeWeights_fl :: "(real \<Rightarrow> real) \<Rightarrow> weights \<Rightarrow> weights option" where
  "normalizeWeights_fl rnd w =
     (let sum = weightSum_fl rnd w in
      do {
        ph \<leftarrow> jsdiv_fl rnd (paymentHistory w) sum;
        ut \<leftarrow> jsdiv_fl rnd (weights.utilization w) sum;
        aa \<leftarrow> jsdiv_fl rnd (accountAge w) sum;
        cm \<leftarrow> jsdiv_fl rnd (creditMix w) sum;
        nc \<leftarrow> jsdiv_fl rnd (newCredit w) sum;
        Some \<lparr>paymentHistory = parseFloat_toFixed_fl rnd 4 ph,
              utilization = parseFloat_toFixed_fl rnd 4 ut,
              accountAge = parseFloat_toFixed_fl rnd 4 aa,
              creditMix = parseFloat_toFixed_fl rnd 4 cm,
              newCredit = parseFloat_toFixed_fl rnd 4 nc\<rparr>
      })"

definition calculateWeights_fl ::
    "(real \<Rightarrow> real) \<Rightarrow> real \<Rightarrow> real \<Rightarrow> real \<Rightarrow> real \<Rightarrow> real \<Rightarrow> real \<Rightarrow> weights option" where
  "calculateWeights_fl rnd fico debt income positive age limit =
     do {
       w \<leftarrow> adjustedWeights_fl rnd fico debt income positive age limit;
       normalizeWeights_fl rnd w
     }"

subsection \<open>calculateWorstCaseImpact\<close>

definition utilizationFactor_fl :: "(real \<Rightarrow> real) \<Rightarrow> UserData \<Rightarrow> real" where
  "utilizationFactor_fl rnd data =
     (let utilization = orElse (Number_fl rnd (UserData.utilization data)) 100
      in max 0 (rnd (rnd (100 - utilization) / 10)))"

definition worstCaseDrop_fl :: "(real \<Rightarrow> real) \<Rightarrow> UserData \<Rightarrow> weights \<Rightarrow> real" where
  "worstCaseDrop_fl rnd data w =
     (let drop = 0;
          drop = rnd (drop + rnd (rnd (utilizationFactor_fl rnd data * 5)
                                    * rnd (weights.utilization w * 2)));
          severityFactor = max 0 (rnd (rnd (Number_fl rnd (ficoScore data) - 500) / 20));
          drop = rnd (drop + rnd (severityFactor * 5));
          drop = rnd (drop - rnd (orElse (Number_fl rnd (positiveAccounts data)) 0 * 10));
          drop = (if Number_fl rnd (oldestAccountAge data) > 10 then rnd (drop - 15) else drop)
      in drop)"

definition calculateWorstCaseImpact_fl :: "(real \<Rightarrow> real) \<Rightarrow> UserData \<Rightarrow> weights \<Rightarrow> real" where
  "calculateWorstCaseImpact_fl rnd data w =
     min 150 (max 20 (Math_round (worstCaseDrop_fl rnd data w)))"

subsection \<open>runSimulation\<close>

definition numericData_fl :: "(real \<Rightarrow> real) \<Rightarrow> UserData \<Rightarrow> NumericData" where
  "numericData_fl rnd data =
     \<lparr>n_ficoScore = orElse (Number_fl rnd (ficoScore data)) 0,
      n_totalDebt = orElse (Number_fl rnd (totalDebt data)) 0,
      n_monthlyIncome = orElse (Number_fl rnd (monthlyIncome data)) 0,
      n_utilization = orElse (Number_fl rnd (UserData.utilization data)) 0,
      n_accountsEnrolling = orElse (Number_fl rnd (accountsEnrolling data)) 0,
      n_positiveAccounts = orElse (Number_fl rnd (positiveAccounts data)) 0,
      n_oldestAccountAge = orElse (Number_fl rnd (oldestAccountAge data)) 0,
      n_programTimeline = orElse (rnd (programTimeline data)) 36,
      n_totalCreditLimit = orElse (Number_fl rnd (totalCreditLimit data)) 0,
      n_monthsInProgram = orElse (Number_fl rnd (monthsInProgram data)) 0,
      n_securedCard = securedCard data,
      n_creditBuilder = creditBuilder data,
      n_authorizedUser = authorizedUser data,
      n_scenarioType = scenarioType data,
      n_programPhase = programPhase data\<rparr>"

definition scenarioBranch_fl ::
    "(real \<Rightarrow> real) \<Rightarrow> UserData \<Rightarrow> NumericData \<Rightarrow> real \<Rightarrow> weights \<Rightarrow> real \<times> real \<times> real" where
  "scenarioBranch_fl rnd data nd initial w =
     (if n_scenarioType nd = PreEnrollment
      then (let penalty = calculateWorstCaseImpact_fl rnd data w
            in (penalty, max 300 (rnd (initial - penalty)), n_programTimeline nd))
      else (0, initial, max 12 (rnd (n_programTimeline nd - n_monthsInProgram nd))))"

definition toolGainOf_fl :: "(real \<Rightarrow> real) \<Rightarrow> NumericData \<Rightarrow> real" where
  "toolGainOf_fl rnd nd =
     (let toolGain = 0;
          toolGain = (if n_securedCard nd then rnd (toolGain + 30) else toolGain);
          toolGain = (if n_creditBuilder nd then rnd (toolGain + 25) else toolGain);
          toolGain = (if n_authorizedUser nd then rnd (toolGain + 10) else toolGain)
      in toolGain)"

definition totalPotentialGainOf_fl ::
    "(real \<Rightarrow> real) \<Rightarrow> NumericData \<Rightarrow> weights \<Rightarrow> real \<Rightarrow> real" where
  "totalPotentialGainOf_fl rnd nd w months =
     (let totalPotentialGain = 0;
          totalPotentialGain = rnd (totalPotentialGain + rnd (weights.utilization w * 250));
          historyGain = rnd (rnd (paymentHistory w * 150) * rnd (months / 36));
          totalPotentialGain = rnd (totalPotentialGain + historyGain);
          totalPotentialGain =
            rnd (totalPotentialGain + rnd (rnd (accountAge w * 50) * rnd (months / 36)));
          totalPotentialGain = rnd (totalPotentialGain + toolGainOf_fl rnd nd)
      in totalPotentialGain)"

definition debtSavingsOf_fl :: "(real \<Rightarrow> real) \<Rightarrow> NumericData \<Rightarrow> real" where
  "debtSavingsOf_fl rnd nd = rnd (n_totalDebt nd * rnd 0.55)"

definition postDTIOf_fl :: "(real \<Rightarrow> real) \<Rightarrow> NumericData \<Rightarrow> real option" where
  "postDTIOf_fl rnd nd =
     (let debtSavings = debtSavingsOf_fl rnd nd;
          postProgramDebt = rnd (n_totalDebt nd - debtSavings);
          annualPostDebtPayment = rnd (postProgramDebt * rnd 0.05);
          monthlyPostDebtPayment = rnd (annualPostDebtPayment / 12)
      in if n_monthlyIncome nd > 0
         then do { q \<leftarrow> jsdiv_fl rnd monthlyPostDebtPayment (n_monthlyIncome nd);
                   Some (rnd (q * 100)) }
         else Some 0)"

definition runSimulation_fl :: "(real \<Rightarrow> real) \<Rightarrow> UserData \<Rightarrow> SimulationResults option" where
  "runSimulation_fl rnd data =
     (let nd = numericData_fl rnd data;
          initial = initialScoreOf nd
      in do {
        w \<leftarrow> calculateWeights_fl rnd initial (n_totalDebt nd) (n_monthlyIncome nd)
               (n_positiveAccounts nd) (n_oldestAccountAge nd) (n_totalCreditLimit nd);
        let (penalty, low, months) = scenarioBranch_fl rnd data nd initial w;
        let totalPotentialGain = totalPotentialGainOf_fl rnd nd w months;
        let projected = min 850 (Math_round (rnd (low + totalPotentialGain)));
        let debtSavings = debtSavingsOf_fl rnd nd;
        postDTI \<leftarrow> postDTIOf_fl rnd nd;
        let totalGain = rnd (projected - low);
        let stabilizationScore =
              min initial (rnd (low + Math_round (rnd (totalGain * rnd 0.15))));
        let recoveryScore = rnd (low + Math_round (rnd (totalGain * rnd 0.65)));
        Some \<lparr>initialScore = initial,
              lowPointScore = low,
              projectedScore = projected,
              scoreGain = rnd (projected - initial),
              postDTI = toFixed 1 (min 50 postDTI),
              savings = debtSavings,
              impactPenalty = penalty,
              recoveryMonths = months,
              weights = w,
              milestoneDipScore = low,
              milestoneStabilizationScore = stabilizationScore,
              milestoneRecoveryScore = recoveryScore,
              utilization = UserData.utilization data\<rparr>
      })"

section \<open>Other definitions\<close>

subsection \<open>The chart\<close>

text \<open>
  Line 215, in the component \<^verbatim>\<open>ScoreChart\<close>: the span that scales the chart's
  vertical axis, \<^verbatim>\<open>(end - dip) || 1\<close>. It is the only place where a span of zero
  is replaced by 1.
\<close>

definition ScoreChart_totalGain :: "real \<Rightarrow> real \<Rightarrow> real" where
  "ScoreChart_totalGain end' dip = orElse (end' - dip) 1"

subsection \<open>Representative inputs\<close>

text \<open>
  \<open>calculateWeights\<close> reads its arguments only through seven comparisons, so every
  input has the adjusted weights of one of 72 inputs: a score of 740, 580 or 600, a
  debt of 1000 or 0 against an income of 100, a credit limit of 10000 or 0, one
  positive account or none, an oldest account of 0, 11 or 5 years. The functions below
  choose that input; they are used in proofs only.
\<close>

definition ficoRep :: "real \<Rightarrow> real" where
  "ficoRep f = (if f \<ge> 740 then 740 else if f \<le> 580 then 580 else 600)"

definition debtRep :: "real \<Rightarrow> real \<Rightarrow> real" where
  "debtRep td mi = (if (if mi > 0 then td / (mi * 12) else 1) > 0.45 then 1000 else 0)"

definition limitRep :: "real \<Rightarrow> real \<Rightarrow> real" where
  "limitRep td tcl = (if tcl > 0 \<and> td / tcl * 100 < 30 then 10000 else 0)"

definition paRep :: "real \<Rightarrow> real" where
  "paRep pa = (if pa > 0 then 1 else 0)"

definition ageRep :: "real \<Rightarrow> real" where
  "ageRep oa = (if oa < 4 then 0 else if oa > 10 then 11 else 5)"

subsection \<open>Sample inputs\<close>

text \<open>
  The profile of the specification's first example: a new client with a score of 650.
\<close>

definition sampleNewClient :: UserData where
  "sampleNewClient =
     defaultUserData\<lparr>ficoScore := Some 650, totalDebt := Some 20000,
       monthlyIncome := Some 4000, UserData.utilization := Some 70,
       accountsEnrolling := Some 3, positiveAccounts := Some 1,
       oldestAccountAge := Some 5, totalCreditLimit := Some 25000,
       securedCard := False\<rparr>"

text \<open>A client six months into the program whose score is at the top of the scale.\<close>

definition sampleTopScore :: UserData where
  "sampleTopScore =
     sampleNewClient\<lparr>ficoScore := Some 850, scenarioType := ProgressTracker,
       monthsInProgram := Some 6\<rparr>"

section \<open>Properties\<close>

subsection \<open>Primitives\<close>

lemmas step_defs =
  ficoStep_def baseWeights_def debtToIncome_def dtiStep_def overallUtilizationStep_def
  positiveAccountsStep_def accountAgeStep_def jsdiv_def

lemma orElse_zero: "orElse a 0 = a"
  by (simp add: orElse_def)

lemma Math_round_lower: "x - 1 / 2 \<le> Math_round x"
proof -
  have "x + 1 / 2 < of_int \<lfloor>x + 1 / 2\<rfloor> + 1"
    by linarith
  then show ?thesis
    unfolding Math_round_def by linarith
qed

lemma Math_round_ge_int: "of_int k \<le> x \<Longrightarrow> of_int k \<le> Math_round x"
proof -
  assume "of_int k \<le> x"
  then have "of_int k \<le> x + 1 / 2"
    by simp
  then have "k \<le> \<lfloor>x + 1 / 2\<rfloor>"
    by (simp only: le_floor_iff)
  then show ?thesis
    by (simp add: Math_round_def)
qed



lemma toFixed_1_zero: "toFixed (Suc 0) 0 = Fixed ''0.0''"
  by (simp add: toFixed_def toFixedN_def digits.simps digitChar_def)






subsection \<open>The weights depend on the branches taken only\<close>

lemma ficoStep_rep: "ficoStep f w = ficoStep (ficoRep f) w"
  by (simp add: ficoStep_def ficoRep_def)

lemma positiveAccountsStep_rep: "positiveAccountsStep pa w = positiveAccountsStep (paRep pa) w"
  by (simp add: positiveAccountsStep_def paRep_def)

lemma accountAgeStep_rep: "accountAgeStep oa w = accountAgeStep (ageRep oa) w"
  by (simp add: accountAgeStep_def ageRep_def)

lemma debtToIncome_rep:
  "debtToIncome td mi \<bind> (\<lambda>dti. g (dtiStep dti w)) =
   debtToIncome (debtRep td mi) 100 \<bind> (\<lambda>dti. g (dtiStep dti w))"
  by (simp add: debtToIncome_def debtRep_def dtiStep_def jsdiv_def)

lemma overallUtilizationStep_eq:
  "overallUtilizationStep td tcl w =
     Some (if tcl > 0 \<and> td / tcl * 100 < 30
           then w\<lparr>weights.utilization := max 0.20 (weights.utilization w - 0.05)\<rparr> else w)"
  by (cases "tcl > 0") (simp_all add: overallUtilizationStep_def jsdiv_def field_simps)

lemma overallUtilizationStep_rep:
  "overallUtilizationStep td tcl w = overallUtilizationStep (debtRep td mi) (limitRep td tcl) w"
proof -
  have "overallUtilizationStep (debtRep td mi) (limitRep td tcl) w =
          Some (if tcl > 0 \<and> td / tcl * 100 < 30
                then w\<lparr>weights.utilization := max 0.20 (weights.utilization w - 0.05)\<rparr> else w)"
    by (simp add: overallUtilizationStep_def jsdiv_def debtRep_def limitRep_def)
  then show ?thesis
    by (simp add: overallUtilizationStep_eq)
qed

lemma adjustedWeights_rep:
  "adjustedWeights f td mi pa oa tcl =
   adjustedWeights (ficoRep f) (debtRep td mi) 100 (paRep pa) (ageRep oa) (limitRep td tcl)"
proof -
  have "adjustedWeights f td mi pa oa tcl =
      debtToIncome td mi \<bind> (\<lambda>dti.
        overallUtilizationStep td tcl (dtiStep dti (ficoStep f baseWeights))
          \<bind> (\<lambda>w. Some (accountAgeStep oa (positiveAccountsStep pa w))))"
    by (simp add: adjustedWeights_def)
  also have "\<dots> =
      debtToIncome td mi \<bind> (\<lambda>dti.
        overallUtilizationStep (debtRep td mi) (limitRep td tcl)
            (dtiStep dti (ficoStep (ficoRep f) baseWeights))
          \<bind> (\<lambda>w. Some (accountAgeStep (ageRep oa) (positiveAccountsStep (paRep pa) w))))"
    using ficoStep_rep [of f] positiveAccountsStep_rep [of pa] accountAgeStep_rep [of oa]
      overallUtilizationStep_rep [of td tcl _ mi]
    by simp
  also have "\<dots> =
      debtToIncome (debtRep td mi) 100 \<bind> (\<lambda>dti.
        overallUtilizationStep (debtRep td mi) (limitRep td tcl)
            (dtiStep dti (ficoStep (ficoRep f) baseWeights))
          \<bind> (\<lambda>w. Some (accountAgeStep (ageRep oa) (positiveAccountsStep (paRep pa) w))))"
    by (rule debtToIncome_rep)
  also have "\<dots> =
      adjustedWeights (ficoRep f) (debtRep td mi) 100 (paRep pa) (ageRep oa) (limitRep td tcl)"
    by (simp add: adjustedWeights_def)
  finally show ?thesis .
qed

lemma adjustedWeights_grid:
  assumes "\<And>f td pa oa tcl.
             f \<in> {740, 580, 600} \<Longrightarrow> td \<in> {1000, 0} \<Longrightarrow> pa \<in> {1, 0} \<Longrightarrow> oa \<in> {0, 11, 5}
               \<Longrightarrow> tcl \<in> {10000, 0} \<Longrightarrow> P (adjustedWeights f td 100 pa oa tcl)"
  shows "P (adjustedWeights f td mi pa oa tcl)"
proof -
  have "P (adjustedWeights (ficoRep f) (debtRep td mi) 100 (paRep pa) (ageRep oa)
             (limitRep td tcl))"
    by (rule assms) (simp_all add: ficoRep_def debtRep_def paRep_def ageRep_def limitRep_def)
  then show ?thesis
    by (simp add: adjustedWeights_rep [symmetric])
qed

subsection \<open>What holds of every weight vector\<close>


lemma normalizeWeights_grid:
  "\<exists>a w. adjustedWeights f td mi pa oa tcl = Some a \<and> normalizeWeights a = Some w \<and>
       \<bar>weightSum w - 1\<bar> \<le> 2 / 10000 \<and>
       0.2174 \<le> paymentHistory w \<and> paymentHistory w \<le> 0.4286 \<and>
       0.1818 \<le> weights.utilization w \<and> weights.utilization w \<le> 0.4091 \<and>
       0.0909 \<le> accountAge w \<and> accountAge w \<le> 0.2381 \<and>
       0.087 \<le> creditMix w \<and> creditMix w \<le> 0.1579 \<and>
       0.08 \<le> newCredit w \<and> newCredit w \<le> 0.1905"
  by (rule adjustedWeights_grid)
    (auto simp: adjustedWeights_def step_defs normalizeWeights_def weightSum_def
       parseFloat_toFixed_def toFixedN_def)

lemma calculateWeights_total:
  "\<exists>w. calculateWeights f td mi pa oa tcl = Some w \<and>
       \<bar>weightSum w - 1\<bar> \<le> 2 / 10000 \<and>
       0.2174 \<le> paymentHistory w \<and> paymentHistory w \<le> 0.4286 \<and>
       0.1818 \<le> weights.utilization w \<and> weights.utilization w \<le> 0.4091 \<and>
       0.0909 \<le> accountAge w \<and> accountAge w \<le> 0.2381 \<and>
       0.087 \<le> creditMix w \<and> creditMix w \<le> 0.1579 \<and>
       0.08 \<le> newCredit w \<and> newCredit w \<le> 0.1905"
proof -
  obtain a w where "adjustedWeights f td mi pa oa tcl = Some a" "normalizeWeights a = Some w"
    and rest: "\<bar>weightSum w - 1\<bar> \<le> 2 / 10000 \<and>
       0.2174 \<le> paymentHistory w \<and> paymentHistory w \<le> 0.4286 \<and>
       0.1818 \<le> weights.utilization w \<and> weights.utilization w \<le> 0.4091 \<and>
       0.0909 \<le> accountAge w \<and> accountAge w \<le> 0.2381 \<and>
       0.087 \<le> creditMix w \<and> creditMix w \<le> 0.1579 \<and>
       0.08 \<le> newCredit w \<and> newCredit w \<le> 0.1905"
    using normalizeWeights_grid [of f td mi pa oa tcl] by blast
  then have "calculateWeights f td mi pa oa tcl = Some w"
    by (simp add: calculateWeights_def)
  with rest show ?thesis
    by blast
qed


subsection \<open>The simulation\<close>

lemma numericData_simps:
  "n_ficoScore (numericData data) = Number (ficoScore data)"
  "n_totalDebt (numericData data) = Number (totalDebt data)"
  "n_monthlyIncome (numericData data) = Number (monthlyIncome data)"
  "n_positiveAccounts (numericData data) = Number (positiveAccounts data)"
  "n_oldestAccountAge (numericData data) = Number (oldestAccountAge data)"
  "n_totalCreditLimit (numericData data) = Number (totalCreditLimit data)"
  "n_monthsInProgram (numericData data) = Number (monthsInProgram data)"
  "n_programTimeline (numericData data) = orElse (programTimeline data) 36"
  "n_scenarioType (numericData data) = scenarioType data"
  "n_securedCard (numericData data) = securedCard data"
  "n_creditBuilder (numericData data) = creditBuilder data"
  "n_authorizedUser (numericData data) = authorizedUser data"
  by (simp_all add: numericData_def orElse_zero)

lemma postDTIOf_eq:
  "postDTIOf nd =
     Some (if n_monthlyIncome nd > 0
           then (n_totalDebt nd - n_totalDebt nd * 0.55) * 0.05 / 12 / n_monthlyIncome nd * 100
           else 0)"
  by (simp add: postDTIOf_def jsdiv_def)

lemma runSimulation_Some:
  assumes "calculateWeights (initialScoreOf (numericData data))
             (n_totalDebt (numericData data)) (n_monthlyIncome (numericData data))
             (n_positiveAccounts (numericData data)) (n_oldestAccountAge (numericData data))
             (n_totalCreditLimit (numericData data)) = Some w"
  shows "runSimulation data =
     Some (let nd = numericData data;
               init = initialScoreOf nd;
               branch = scenarioBranch data nd init w;
               low = fst (snd branch);
               months = snd (snd branch);
               projected = min 850 (Math_round (low + totalPotentialGainOf nd w months))
           in \<lparr>initialScore = init,
               lowPointScore = low,
               projectedScore = projected,
               scoreGain = projected - init,
               postDTI =
                 toFixed 1 (min 50 (if n_monthlyIncome nd > 0
                   then (n_totalDebt nd - n_totalDebt nd * 0.55) * 0.05 / 12
                          / n_monthlyIncome nd * 100
                   else 0)),
               savings = n_totalDebt nd * 0.55,
               impactPenalty = fst branch,
               recoveryMonths = months,
               weights = w,
               milestoneDipScore = low,
               milestoneStabilizationScore = min init (low + Math_round ((projected - low) * 0.15)),
               milestoneRecoveryScore = low + Math_round ((projected - low) * 0.65),
               utilization = UserData.utilization data\<rparr>)"
  using assms by (simp add: runSimulation_def Let_def postDTIOf_eq case_prod_beta)

lemma toolGainOf_eq:
  "toolGainOf nd =
     (if n_securedCard nd then 30 else 0) + (if n_creditBuilder nd then 25 else 0)
       + (if n_authorizedUser nd then 10 else 0)"
  by (simp add: toolGainOf_def)

lemma totalPotentialGainOf_eq:
  "totalPotentialGainOf nd w months =
     weights.utilization w * 250 + paymentHistory w * 150 * (months / 36)
       + accountAge w * 50 * (months / 36) + toolGainOf nd"
  by (simp add: totalPotentialGainOf_def)

lemma totalPotentialGainOf_lower:
  assumes "0 \<le> paymentHistory w" "0 \<le> accountAge w" "0 \<le> months"
  shows "weights.utilization w * 250 \<le> totalPotentialGainOf nd w months"
proof -
  have "0 \<le> paymentHistory w * 150 * (months / 36)" "0 \<le> accountAge w * 50 * (months / 36)"
    using assms by simp_all
  moreover have "0 \<le> toolGainOf nd"
    by (simp add: toolGainOf_eq)
  ultimately show ?thesis
    by (simp add: totalPotentialGainOf_eq)
qed

lemma calculateWorstCaseImpact_range:
  "20 \<le> calculateWorstCaseImpact data w \<and> calculateWorstCaseImpact data w \<le> 150"
  by (simp add: calculateWorstCaseImpact_def)

lemma initialScoreOf_range:
  "300 \<le> initialScoreOf nd" "n_ficoScore nd \<le> 850 \<Longrightarrow> initialScoreOf nd \<le> 850"
  by (simp_all add: initialScoreOf_def)

lemma runSimulation_weights:
  "\<exists>w. calculateWeights (initialScoreOf (numericData data))
             (n_totalDebt (numericData data)) (n_monthlyIncome (numericData data))
             (n_positiveAccounts (numericData data)) (n_oldestAccountAge (numericData data))
             (n_totalCreditLimit (numericData data)) = Some w
       \<and> 0 \<le> paymentHistory w \<and> 1 / 10 \<le> weights.utilization w \<and> 0 \<le> accountAge w"
proof -
  obtain w where "calculateWeights (initialScoreOf (numericData data))
             (n_totalDebt (numericData data)) (n_monthlyIncome (numericData data))
             (n_positiveAccounts (numericData data)) (n_oldestAccountAge (numericData data))
             (n_totalCreditLimit (numericData data)) = Some w"
    and "0.2174 \<le> paymentHistory w" "0.1818 \<le> weights.utilization w" "0.0909 \<le> accountAge w"
    using calculateWeights_total by blast
  then show ?thesis
    by (intro exI [of _ w]) simp
qed

lemma scenarioBranch_PreEnrollment:
  "n_scenarioType nd = PreEnrollment \<Longrightarrow>
     scenarioBranch data nd init w =
       (calculateWorstCaseImpact data w, max 300 (init - calculateWorstCaseImpact data w),
        n_programTimeline nd)"
  by (simp add: scenarioBranch_def Let_def)

lemma scenarioBranch_ProgressTracker:
  "n_scenarioType nd = ProgressTracker \<Longrightarrow>
     scenarioBranch data nd init w =
       (0, init, max 12 (n_programTimeline nd - n_monthsInProgram nd))"
  by (simp add: scenarioBranch_def Let_def)

lemma scenarioBranch_low_range:
  assumes "300 \<le> init" "init \<le> 850"
  shows "300 \<le> fst (snd (scenarioBranch data nd init w))"
    and "fst (snd (scenarioBranch data nd init w)) \<le> 850"
  using assms calculateWorstCaseImpact_range [of data w]
  by (auto simp: scenarioBranch_def Let_def)

lemma scenarioBranch_months_nonneg:
  assumes "0 \<le> n_programTimeline nd"
  shows "0 \<le> snd (snd (scenarioBranch data nd init w))"
  using assms by (auto simp: scenarioBranch_def Let_def max_def)

lemma orElse_36_nonneg: "0 \<le> x \<Longrightarrow> 0 \<le> orElse x 36"
  by (simp add: orElse_def)

lemma runSimulation_fields:
  assumes "calculateWeights (initialScoreOf (numericData data))
             (n_totalDebt (numericData data)) (n_monthlyIncome (numericData data))
             (n_positiveAccounts (numericData data)) (n_oldestAccountAge (numericData data))
             (n_totalCreditLimit (numericData data)) = Some w"
    and "scenarioBranch data (numericData data) (initialScoreOf (numericData data)) w
           = (penalty, low, months)"
    and "min 850 (Math_round (low + totalPotentialGainOf (numericData data) w months))
           = projected"
  shows "map_option lowPointScore (runSimulation data) = Some low"
    and "map_option projectedScore (runSimulation data) = Some projected"
    and "map_option milestoneRecoveryScore (runSimulation data)
           = Some (low + Math_round ((projected - low) * 0.65))"
  using assms(2,3) by (simp_all add: runSimulation_Some [OF assms(1)] Let_def)

lemma sampleTopScore_weights:
  "calculateWeights (initialScoreOf (numericData sampleTopScore))
     (n_totalDebt (numericData sampleTopScore)) (n_monthlyIncome (numericData sampleTopScore))
     (n_positiveAccounts (numericData sampleTopScore))
     (n_oldestAccountAge (numericData sampleTopScore))
     (n_totalCreditLimit (numericData sampleTopScore))
   = Some \<lparr>paymentHistory = 0.2609, utilization = 0.3478, accountAge = 0.1739,
           creditMix = 0.1304, newCredit = 0.087\<rparr>"
  by (simp add: sampleTopScore_def sampleNewClient_def defaultUserData_def numericData_simps
      Number_def initialScoreOf_def calculateWeights_def adjustedWeights_def step_defs
      normalizeWeights_def weightSum_def parseFloat_toFixed_def toFixedN_def)

section \<open>The claims\<close>

subsection \<open>The weight vector\<close>



subsection \<open>The worst-case impact\<close>



text \<open>
  C10. When the utilization field is empty or 0, \<open>calculateWorstCaseImpact\<close> reads it as
  100: the utilization factor is 0, the utilization term adds nothing to the drop, and
  the result is that of the remaining terms.
\<close>

theorem calculateWorstCaseImpact_empty_utilization:
  assumes "UserData.utilization data = None \<or> UserData.utilization data = Some 0"
  shows "orElse (Number (UserData.utilization data)) 100 = 100
     \<and> utilizationFactor data = 0
     \<and> utilizationFactor data * 5 * (weights.utilization w * 2) = 0
     \<and> calculateWorstCaseImpact data w =
         min 150 (max 20 (Math_round
           (max 0 ((Number (ficoScore data) - 500) / 20) * 5
             - Number (positiveAccounts data) * 10
             - (if Number (oldestAccountAge data) > 10 then 15 else 0))))"
proof -
  have n: "Number (UserData.utilization data) = 0"
    using assms by (auto simp: Number_def)
  then have f: "utilizationFactor data = 0"
    by (simp add: utilizationFactor_def orElse_def)
  then have "worstCaseDrop data w =
      max 0 ((Number (ficoScore data) - 500) / 20) * 5
        - Number (positiveAccounts data) * 10
        - (if Number (oldestAccountAge data) > 10 then 15 else 0)"
    by (simp add: worstCaseDrop_def orElse_def)
  then show ?thesis
    using n f by (simp add: calculateWorstCaseImpact_def orElse_def)
qed

theorem calculateWorstCaseImpact_empty_utilization_witness:
  "(UserData.utilization defaultUserData = None \<or> UserData.utilization defaultUserData = Some 0)
     \<and> utilizationFactor defaultUserData = 0
     \<and> calculateWorstCaseImpact defaultUserData baseWeights = 20"
  using calculateWorstCaseImpact_empty_utilization [of defaultUserData baseWeights]
  by (simp add: defaultUserData_def Number_def Math_round_def)

subsection \<open>The projection\<close>

text \<open>
  C3. For a profile whose score is at most 850 and whose program timeline is not
  negative (so for every profile with a score in [300, 850] and a timeline of 12 to 60
  months), \<open>runSimulation\<close> returns, and its low point and its projected score are both
  within [300, 850].
\<close>

theorem runSimulation_scores_in_range:
  assumes "Number (ficoScore data) \<le> 850" and "0 \<le> programTimeline data"
  shows "\<exists>r. runSimulation data = Some r
           \<and> 300 \<le> lowPointScore r \<and> lowPointScore r \<le> 850
           \<and> 300 \<le> projectedScore r \<and> projectedScore r \<le> 850"
proof -
  let ?nd = "numericData data"
  let ?init = "initialScoreOf ?nd"
  obtain w where cw: "calculateWeights ?init (n_totalDebt ?nd) (n_monthlyIncome ?nd)
      (n_positiveAccounts ?nd) (n_oldestAccountAge ?nd) (n_totalCreditLimit ?nd) = Some w"
    and nn: "0 \<le> paymentHistory w" "1 / 10 \<le> weights.utilization w" "0 \<le> accountAge w"
    using runSimulation_weights [of data] by blast
  let ?branch = "scenarioBranch data ?nd ?init w"
  let ?low = "fst (snd ?branch)"
  let ?months = "snd (snd ?branch)"
  have init: "300 \<le> ?init" "?init \<le> 850"
    using assms(1) by (simp_all add: initialScoreOf_range numericData_simps)
  have low: "300 \<le> ?low" "?low \<le> 850"
    using init by (rule scenarioBranch_low_range)+
  have "0 \<le> n_programTimeline ?nd"
    using assms(2) by (simp add: numericData_simps orElse_36_nonneg)
  then have "0 \<le> ?months"
    by (rule scenarioBranch_months_nonneg)
  then have "weights.utilization w * 250 \<le> totalPotentialGainOf ?nd w ?months"
    using nn by (intro totalPotentialGainOf_lower)
  then have "0 \<le> totalPotentialGainOf ?nd w ?months"
    using nn(2) by linarith
  then have "of_int 300 \<le> ?low + totalPotentialGainOf ?nd w ?months"
    using low(1) by simp
  then have "of_int 300 \<le> Math_round (?low + totalPotentialGainOf ?nd w ?months)"
    by (rule Math_round_ge_int)
  then have proj: "300 \<le> min 850 (Math_round (?low + totalPotentialGainOf ?nd w ?months))"
    by simp
  show ?thesis
    using low proj by (simp add: runSimulation_Some [OF cw] Let_def)
qed

theorem runSimulation_scores_in_range_witness:
  "Number (ficoScore sampleNewClient) \<le> 850 \<and> 0 \<le> programTimeline sampleNewClient
     \<and> (\<exists>r. runSimulation sampleNewClient = Some r
           \<and> 300 \<le> lowPointScore r \<and> lowPointScore r \<le> 850
           \<and> 300 \<le> projectedScore r \<and> projectedScore r \<le> 850)"
proof -
  have h: "Number (ficoScore sampleNewClient) \<le> 850" "0 \<le> programTimeline sampleNewClient"
    by (simp_all add: sampleNewClient_def defaultUserData_def Number_def)
  show ?thesis
    using h runSimulation_scores_in_range [OF h] by simp
qed



text \<open>
  C5. For a client already in the program (scenario \<open>progress-tracker\<close>) with a program
  timeline other than 0 (the documented timelines are 12 to 60 months), \<open>runSimulation\<close>
  returns an impact penalty of 0, a low point equal to the initial score, and
  \<open>max(12, program_timeline - months_in_program)\<close> recovery months.
\<close>

theorem runSimulation_existing_client:
  assumes "scenarioType data = ProgressTracker" and "programTimeline data \<noteq> 0"
  shows "\<exists>r. runSimulation data = Some r
           \<and> impactPenalty r = 0
           \<and> lowPointScore r = initialScore r
           \<and> recoveryMonths r
               = max 12 (programTimeline data - Number (monthsInProgram data))"
proof -
  let ?nd = "numericData data"
  obtain w where cw: "calculateWeights (initialScoreOf ?nd) (n_totalDebt ?nd)
      (n_monthlyIncome ?nd) (n_positiveAccounts ?nd) (n_oldestAccountAge ?nd)
      (n_totalCreditLimit ?nd) = Some w"
    using runSimulation_weights [of data] by blast
  have "scenarioBranch data ?nd (initialScoreOf ?nd) w =
      (0, initialScoreOf ?nd, max 12 (programTimeline data - Number (monthsInProgram data)))"
    using assms by (simp add: scenarioBranch_ProgressTracker numericData_simps orElse_def)
  then show ?thesis
    by (simp add: runSimulation_Some [OF cw] Let_def)
qed

theorem runSimulation_existing_client_witness:
  "scenarioType sampleTopScore = ProgressTracker \<and> programTimeline sampleTopScore \<noteq> 0
     \<and> (\<exists>r. runSimulation sampleTopScore = Some r
           \<and> impactPenalty r = 0
           \<and> lowPointScore r = initialScore r
           \<and> recoveryMonths r = 30)"
proof -
  have h: "scenarioType sampleTopScore = ProgressTracker" "programTimeline sampleTopScore \<noteq> 0"
    by (simp_all add: sampleTopScore_def sampleNewClient_def defaultUserData_def)
  show ?thesis
    using h runSimulation_existing_client [OF h]
    by (simp add: sampleTopScore_def sampleNewClient_def defaultUserData_def Number_def)
qed

text \<open>
  C6, as amended. \<open>runSimulation\<close> returns the milestones
  \<open>stabilization = min(initial_score, low_point + round(gain_span * 0.15))\<close> and
  \<open>recovery = low_point + round(gain_span * 0.65)\<close>, where the gain span is
  \<open>projected_score - low_point\<close> as it is, also when it is zero; the dip milestone is
  the low point.
\<close>

theorem runSimulation_milestones:
  "\<exists>r. runSimulation data = Some r
     \<and> milestoneDipScore r = lowPointScore r
     \<and> milestoneStabilizationScore r =
         min (initialScore r)
           (lowPointScore r + Math_round ((projectedScore r - lowPointScore r) * 0.15))
     \<and> milestoneRecoveryScore r =
         lowPointScore r + Math_round ((projectedScore r - lowPointScore r) * 0.65)"
proof -
  let ?nd = "numericData data"
  obtain w where cw: "calculateWeights (initialScoreOf ?nd) (n_totalDebt ?nd)
      (n_monthlyIncome ?nd) (n_positiveAccounts ?nd) (n_oldestAccountAge ?nd)
      (n_totalCreditLimit ?nd) = Some w"
    using runSimulation_weights [of data] by blast
  show ?thesis
    by (simp add: runSimulation_Some [OF cw] Let_def)
qed

text \<open>
  C6 as the specification states it fails for a client six months into the program with
  a score of 850: the low point and the projected score are both 850, so the gain span
  is 0, and the recovery milestone is 850. With a span of 1 in place of 0, as the chart
  takes it for its scale, the recovery milestone would be 850 + round(0.65) = 851.
\<close>

theorem runSimulation_milestones_counterexample:
  "map_option lowPointScore (runSimulation sampleTopScore) = Some 850
     \<and> map_option projectedScore (runSimulation sampleTopScore) = Some 850
     \<and> map_option milestoneRecoveryScore (runSimulation sampleTopScore) = Some 850
     \<and> ScoreChart_totalGain 850 850 = 1
     \<and> 850 + Math_round (ScoreChart_totalGain 850 850 * 0.65) = 851"
proof -
  let ?nd = "numericData sampleTopScore"
  let ?w = "\<lparr>paymentHistory = 0.2609, utilization = 0.3478, accountAge = 0.1739,
           creditMix = 0.1304, newCredit = 0.087\<rparr>"
  have init: "initialScoreOf ?nd = 850"
    by (simp add: initialScoreOf_def numericData_simps sampleTopScore_def sampleNewClient_def
        defaultUserData_def Number_def)
  have "scenarioBranch sampleTopScore ?nd 850 ?w = (0, 850, 30)"
    by (simp add: scenarioBranch_def numericData_simps sampleTopScore_def sampleNewClient_def
        defaultUserData_def Number_def orElse_def)
  then have branch: "scenarioBranch sampleTopScore ?nd (initialScoreOf ?nd) ?w = (0, 850, 30)"
    by (simp only: init)
  have "toolGainOf ?nd = 0"
    by (simp add: toolGainOf_eq numericData_simps sampleTopScore_def sampleNewClient_def
        defaultUserData_def)
  then have gain: "totalPotentialGainOf ?nd ?w 30 = 15217 / 120"
    by (simp add: totalPotentialGainOf_eq)
  have projected: "min 850 (Math_round (850 + totalPotentialGainOf ?nd ?w 30)) = 850"
    unfolding gain by (simp add: Math_round_def)
  have chart: "ScoreChart_totalGain 850 850 = 1"
    by (simp add: ScoreChart_totalGain_def orElse_def)
  have "Math_round ((850 - 850) * 0.65) = 0" "Math_round (1 * 0.65) = 1"
    by (simp_all add: Math_round_def)
  then show ?thesis
    using runSimulation_fields [OF sampleTopScore_weights branch projected] chart
    by simp
qed



text \<open>
  C9. For a client already in the program whose score is at most 850, \<open>runSimulation\<close>
  returns a score gain that is not negative: the projected score is at least the initial
  score.
\<close>

theorem runSimulation_gain_nonneg:
  assumes "scenarioType data = ProgressTracker" and "Number (ficoScore data) \<le> 850"
  shows "\<exists>r. runSimulation data = Some r \<and> 0 \<le> scoreGain r
           \<and> initialScore r \<le> projectedScore r"
proof -
  let ?nd = "numericData data"
  let ?init = "initialScoreOf ?nd"
  obtain w where cw: "calculateWeights ?init (n_totalDebt ?nd) (n_monthlyIncome ?nd)
      (n_positiveAccounts ?nd) (n_oldestAccountAge ?nd) (n_totalCreditLimit ?nd) = Some w"
    and nn: "0 \<le> paymentHistory w" "1 / 10 \<le> weights.utilization w" "0 \<le> accountAge w"
    using runSimulation_weights [of data] by blast
  let ?months = "max 12 (n_programTimeline ?nd - n_monthsInProgram ?nd)"
  have branch: "scenarioBranch data ?nd ?init w = (0, ?init, ?months)"
    using assms(1) by (simp add: scenarioBranch_ProgressTracker numericData_simps)
  have init: "?init \<le> 850"
    using assms(2) by (simp add: initialScoreOf_range numericData_simps)
  have "weights.utilization w * 250 \<le> totalPotentialGainOf ?nd w ?months"
    using nn by (intro totalPotentialGainOf_lower) simp_all
  then have "1 / 2 \<le> totalPotentialGainOf ?nd w ?months"
    using nn(2) by linarith
  moreover have "?init + totalPotentialGainOf ?nd w ?months - 1 / 2
      \<le> Math_round (?init + totalPotentialGainOf ?nd w ?months)"
    by (rule Math_round_lower)
  ultimately have "?init \<le> Math_round (?init + totalPotentialGainOf ?nd w ?months)"
    by linarith
  then have "?init \<le> min 850 (Math_round (?init + totalPotentialGainOf ?nd w ?months))"
    using init by simp
  then show ?thesis
    by (simp add: runSimulation_Some [OF cw] Let_def branch)
qed

theorem runSimulation_gain_nonneg_witness:
  "scenarioType sampleTopScore = ProgressTracker \<and> Number (ficoScore sampleTopScore) \<le> 850
     \<and> (\<exists>r. runSimulation sampleTopScore = Some r \<and> 0 \<le> scoreGain r
           \<and> initialScore r \<le> projectedScore r)"
proof -
  have h: "scenarioType sampleTopScore = ProgressTracker"
    "Number (ficoScore sampleTopScore) \<le> 850"
    by (simp_all add: sampleTopScore_def sampleNewClient_def defaultUserData_def Number_def)
  show ?thesis
    using h runSimulation_gain_nonneg [OF h] by simp
qed

subsection \<open>Totality\<close>

text \<open>
  C8. The formula always returns: \<open>calculateWeights\<close> and \<open>runSimulation\<close> have a result
  for every input, so no division in them meets a zero denominator
  (\<open>calculateWorstCaseImpact\<close> divides by the constants 10 and 20 only). With a monthly
  income of 0 the debt-to-income ratio is taken as 1 and the percentage after the program
  as 0; with a total credit limit of 0 the overall-utilization step returns the weights
  it was given, and the adjusted weights are those of the other four steps.
\<close>

theorem formula_total:
  "(\<exists>w. calculateWeights f td mi pa oa tcl = Some w)
     \<and> (\<exists>r. runSimulation data = Some r)
     \<and> debtToIncome td 0 = Some 1
     \<and> (\<exists>r. runSimulation (data\<lparr>monthlyIncome := Some 0\<rparr>) = Some r
            \<and> postDTI r = Fixed ''0.0'')
     \<and> overallUtilizationStep td 0 w = Some w
     \<and> adjustedWeights f td mi pa oa 0 =
         debtToIncome td mi \<bind> (\<lambda>dti.
           Some (accountAgeStep oa (positiveAccountsStep pa
                   (dtiStep dti (ficoStep f baseWeights)))))"
proof -
  have "\<exists>w. calculateWeights f td mi pa oa tcl = Some w"
    using calculateWeights_total [of f td mi pa oa tcl] by blast
  moreover have "\<exists>r. runSimulation d = Some r" for d
    using runSimulation_weights [of d] runSimulation_Some [of d] by blast
  moreover have "debtToIncome td 0 = Some 1"
    by (simp add: debtToIncome_def)
  moreover have "\<exists>r. runSimulation (data\<lparr>monthlyIncome := Some 0\<rparr>) = Some r
      \<and> postDTI r = Fixed ''0.0''"
  proof -
    let ?d = "data\<lparr>monthlyIncome := Some 0\<rparr>"
    obtain w where cw: "calculateWeights (initialScoreOf (numericData ?d))
        (n_totalDebt (numericData ?d)) (n_monthlyIncome (numericData ?d))
        (n_positiveAccounts (numericData ?d)) (n_oldestAccountAge (numericData ?d))
        (n_totalCreditLimit (numericData ?d)) = Some w"
      using runSimulation_weights [of ?d] by blast
    show ?thesis
      by (simp add: runSimulation_Some [OF cw] Let_def numericData_simps Number_def
          toFixed_1_zero)
  qed
  moreover have "overallUtilizationStep td 0 w = Some w"
    by (simp add: overallUtilizationStep_def)
  moreover have "adjustedWeights f td mi pa oa 0 =
         debtToIncome td mi \<bind> (\<lambda>dti.
           Some (accountAgeStep oa (positiveAccountsStep pa
                   (dtiStep dti (ficoStep f baseWeights)))))"
    by (simp add: adjustedWeights_def overallUtilizationStep_def)
  ultimately show ?thesis
    by blast
qed

end
